theory Spec2Isabelle
  imports Main
begin

section \<open>Values of the program\<close>

text \<open>
  The program is \<^verbatim>\<open>app/main.py\<close>: a credential table, the \<^verbatim>\<open>authenticate\<close>
  dependency, four protected handlers under \<^verbatim>\<open>/api\<close>, a start-up check of the
  frontend build and the handlers that serve the frontend. Python strings are modelled as
  \<^typ>\<open>string\<close>.
\<close>

text \<open>
  What a Python call can raise. \<open>RuntimeError\<close> and \<open>Exception\<close> stand for instances
  of \<^verbatim>\<open>Exception\<close> (the first for the class the module itself raises),
  \<open>BaseException\<close> for an instance outside \<^verbatim>\<open>Exception\<close> (\<^verbatim>\<open>KeyboardInterrupt\<close>,
  \<^verbatim>\<open>SystemExit\<close>), which \<^verbatim>\<open>except Exception\<close> lets through.
\<close>

datatype raised = RuntimeError string | Exception string | BaseException string

fun isinstance_Exception :: "raised \<Rightarrow> bool" where
  "isinstance_Exception (RuntimeError _) = True"
| "isinstance_Exception (Exception _) = True"
| "isinstance_Exception (BaseException _) = False"

fun str :: "raised \<Rightarrow> string" where
  "str (RuntimeError m) = m"
| "str (Exception m) = m"
| "str (BaseException m) = m"

text \<open>
  How a dependency or a handler ends: it returns a value, raises
  \<^verbatim>\<open>HTTPException(status_code, detail)\<close>, or lets another exception out.
\<close>

datatype 'a outcome = Return 'a | HTTPException nat string | Raise raised

text \<open>
  The calls the module makes to the outside, in the order it makes them: \<^verbatim>\<open>print\<close>,
  \<^verbatim>\<open>os.path.exists\<close>, the document loader, the vector store, the chain constructor and
  the chain's \<^verbatim>\<open>run\<close>.
\<close>

datatype event =
    Call_print string
  | Call_exists string
  | Call_get_documents_by_role string
  | Call_load_vector_store string
  | Call_from_chain_type
  | Call_run string

text \<open>
  The collaborators the module imports or builds at import time, taken as parameters:
  \<open>'d\<close> is what the loader returns, \<open>'m\<close> the language model \<^verbatim>\<open>llm\<close>, \<open>'r\<close> a
  retriever and \<open>'q\<close> a \<^verbatim>\<open>RetrievalQA\<close> chain. Each call either returns or raises.
  \<open>dirname_file\<close> is \<^verbatim>\<open>os.path.dirname(__file__)\<close>.
\<close>

record ('d, 'm, 'r, 'q) env =
  get_documents_by_role :: "string \<Rightarrow> raised + 'd"
  load_vector_store :: "string \<Rightarrow> raised + 'r"
  llm :: 'm
  from_chain_type :: "'m \<Rightarrow> 'r \<Rightarrow> raised + 'q"
  run :: "'q \<Rightarrow> string \<Rightarrow> raised + string"
  dirname_file :: string
  exists :: "string \<Rightarrow> bool"

section \<open>The credential table and \<open>authenticate\<close>\<close>

text \<open>
  An entry of \<^verbatim>\<open>users_db\<close> is a dict literal with exactly the keys \<^verbatim>\<open>password\<close> and
  \<^verbatim>\<open>role\<close>; the dict \<^verbatim>\<open>authenticate\<close> returns has exactly the keys \<^verbatim>\<open>username\<close>
  and \<^verbatim>\<open>role\<close>. Both are records here, so the lookups \<^verbatim>\<open>user["password"]\<close> and
  \<^verbatim>\<open>user["role"]\<close> are field selections.
\<close>

record user_entry =
  db_password :: string
  db_role :: string

record HTTPBasicCredentials =
  cred_username :: string
  cred_password :: string

record user =
  user_username :: string
  user_role :: string

definition users_db :: "(string \<times> user_entry) list" where
  "users_db =
    [(''Tony'', \<lparr>db_password = ''password123'', db_role = ''engineering''\<rparr>),
     (''Bruce'', \<lparr>db_password = ''securepass'', db_role = ''marketing''\<rparr>),
     (''Sam'', \<lparr>db_password = ''financepass'', db_role = ''finance''\<rparr>),
     (''Peter'', \<lparr>db_password = ''pete123'', db_role = ''engineering''\<rparr>),
     (''Sid'', \<lparr>db_password = ''sidpass123'', db_role = ''marketing''\<rparr>),
     (''Natasha'', \<lparr>db_password = ''hrpass123'', db_role = ''hr''\<rparr>)]"

text \<open>
  \<^verbatim>\<open>users_db.get(credentials.username)\<close> is \<open>map_of users_db\<close>. An entry is a
  non-empty dict, so \<^verbatim>\<open>not user\<close> holds exactly when the lookup gave \<^verbatim>\<open>None\<close>.
\<close>

definition authenticate :: "HTTPBasicCredentials \<Rightarrow> user outcome" where
  "authenticate credentials =
    (case map_of users_db (cred_username credentials) of
       None \<Rightarrow> HTTPException 401 ''Invalid credentials''
     | Some entry \<Rightarrow>
         if db_password entry \<noteq> cred_password credentials
         then HTTPException 401 ''Invalid credentials''
         else Return \<lparr>user_username = cred_username credentials, user_role = db_role entry\<rparr>)"

section \<open>Handlers\<close>

text \<open>
  What a handler returns: a dict of strings (sent as a JSON object), the loader's result
  as it is, or a \<^verbatim>\<open>FileResponse\<close> on a path. The last four are the pages of the
  framework's own routes: the OpenAPI schema, Swagger UI, its OAuth2 redirect page and
  ReDoc.
\<close>

datatype 'd content =
    JSON "(string \<times> string) list"
  | Documents 'd
  | FileResponse string
  | OpenAPI_schema
  | Swagger_UI
  | Swagger_UI_redirect
  | ReDoc

record ChatRequest =
  message :: string

definition login :: "user \<Rightarrow> 'd content outcome \<times> event list" where
  "login u =
    (Return (JSON [(''message'', ''Welcome '' @ user_username u @ ''!''),
                   (''role'', user_role u)]), [])"

definition list_docs_by_role ::
  "('d, 'm, 'r, 'q) env \<Rightarrow> user \<Rightarrow> 'd content outcome \<times> event list" where
  "list_docs_by_role w u =
    ((case get_documents_by_role w (user_role u) of
        Inl e \<Rightarrow> Raise e
      | Inr docs \<Rightarrow> Return (Documents docs)),
     [Call_get_documents_by_role (user_role u)])"

definition test :: "user \<Rightarrow> 'd content outcome \<times> event list" where
  "test u =
    (Return (JSON [(''message'', ''Hello '' @ user_username u @ ''! You can now chat.''),
                   (''role'', user_role u)]), [])"

text \<open>
  The two lines \<^verbatim>\<open>chat_endpoint\<close> prints. The two pictographs of the source are written
  as their UTF-8 bytes.
\<close>

definition query_line :: "user \<Rightarrow> ChatRequest \<Rightarrow> string" where
  "query_line u request =
    [CHR 0xF0, CHR 0x9F, CHR 0x93, CHR 0xA8] @ '' Query from '' @ user_username u @
    '' ('' @ user_role u @ ''): '' @ message request"

definition error_line :: "raised \<Rightarrow> string" where
  "error_line e = [CHR 0xE2, CHR 0x9D, CHR 0x8C] @ '' Error during chat: '' @ str e"

text \<open>
  The \<^verbatim>\<open>except Exception as e\<close> clause of \<^verbatim>\<open>chat_endpoint\<close>, reached with the
  calls made so far: an instance of \<^verbatim>\<open>Exception\<close> is printed and replaced by the
  HTTP exception with status 500; anything else passes through.
\<close>

definition except_Exception ::
  "raised \<Rightarrow> event list \<Rightarrow> 'd content outcome \<times> event list" where
  "except_Exception e calls =
    (if isinstance_Exception e
     then (HTTPException 500 ''Chat failed. Please try again.'',
           calls @ [Call_print (error_line e)])
     else (Raise e, calls))"

definition chat_endpoint ::
  "('d, 'm, 'r, 'q) env \<Rightarrow> ChatRequest \<Rightarrow> user \<Rightarrow> 'd content outcome \<times> event list" where
  "chat_endpoint w request u =
    (let printed = [Call_print (query_line u request)];
         loaded = printed @ [Call_load_vector_store (user_role u)];
         built = loaded @ [Call_from_chain_type];
         ran = built @ [Call_run (message request)]
     in case load_vector_store w (user_role u) of
          Inl e \<Rightarrow> except_Exception e loaded
        | Inr retriever \<Rightarrow>
            (case from_chain_type w (llm w) retriever of
               Inl e \<Rightarrow> except_Exception e built
             | Inr qa \<Rightarrow>
                 (case run w qa (message request) of
                    Inl e \<Rightarrow> except_Exception e ran
                  | Inr result \<Rightarrow>
                      (Return (JSON [(''user'', user_username u),
                                     (''role'', user_role u),
                                     (''query'', message request),
                                     (''response'', result)]), ran))))"

section \<open>Start-up and the frontend\<close>

text \<open>
  \<^verbatim>\<open>str.startswith\<close>, and \<^verbatim>\<open>os.path.join\<close> of two components on a POSIX system.
\<close>

definition startswith :: "string \<Rightarrow> string \<Rightarrow> bool" where
  "startswith s prefix = (take (length prefix) s = prefix)"

definition join :: "string \<Rightarrow> string \<Rightarrow> string" where
  "join a b =
    (if startswith b ''/'' then b
     else if a = [] \<or> last a = CHR ''/'' then a @ b
     else a @ ''/'' @ b)"

definition BUILD_DIR :: "('d, 'm, 'r, 'q) env \<Rightarrow> string" where
  "BUILD_DIR w = join (join (join (dirname_file w) ''..'') ''frontend'') ''build''"

definition STATIC_DIR :: "('d, 'm, 'r, 'q) env \<Rightarrow> string" where
  "STATIC_DIR w = join (BUILD_DIR w) ''static''"

definition serve_react_index ::
  "('d, 'm, 'r, 'q) env \<Rightarrow> 'd content outcome \<times> event list" where
  "serve_react_index w = (Return (FileResponse (join (BUILD_DIR w) ''index.html'')), [])"

definition serve_react_router ::
  "('d, 'm, 'r, 'q) env \<Rightarrow> string \<Rightarrow> 'd content outcome \<times> event list" where
  "serve_react_router w full_path =
    (Return (FileResponse (join (BUILD_DIR w) ''index.html'')), [])"

definition read_root :: "'d content outcome \<times> event list" where
  "read_root = (Return (JSON [(''message'', ''Backend is running!'')]), [])"

text \<open>
  The module body from \<^verbatim>\<open>BUILD_DIR = ...\<close> on: it asks once whether
  \<^verbatim>\<open>STATIC_DIR\<close> exists and raises \<^verbatim>\<open>RuntimeError\<close> when it does not, so that the
  import fails and there is no application to serve; otherwise the routes are registered.
  The statements before it (the imports, the CORS middleware, the loading of the model
  into \<^verbatim>\<open>llm\<close>) are taken to have run: \<open>llm\<close> is a value of the environment.
\<close>

datatype http_method = GET | POST | PUT | DELETE | PATCH | HEAD | OPTIONS

datatype endpoint =
    Ep_openapi
  | Ep_swagger_ui_html
  | Ep_swagger_ui_redirect
  | Ep_redoc_html
  | Ep_login
  | Ep_list_docs_by_role
  | Ep_test
  | Ep_chat_endpoint
  | Ep_static
  | Ep_serve_react_index
  | Ep_serve_react_router
  | Ep_read_root

text \<open>
  A route's path is a literal, or a prefix followed by a \<^verbatim>\<open>{...:path}\<close> parameter (so
  is a mount, whose prefix ends with the slash after the mount point). A route lists its
  methods; a mount takes every method.
\<close>

datatype path_pattern = Literal string | Subtree string

type_synonym route = "http_method list option \<times> path_pattern \<times> endpoint"

text \<open>
  The routes in the order they are registered. \<^verbatim>\<open>app = FastAPI()\<close> registers four
  routes of its own first, with the default URLs, for GET and HEAD; then come the routes of
  the module, each decorator for its one method, and the mount.
\<close>

definition routes :: "route list" where
  "routes =
    [(Some [GET, HEAD], Literal ''/openapi.json'', Ep_openapi),
     (Some [GET, HEAD], Literal ''/docs'', Ep_swagger_ui_html),
     (Some [GET, HEAD], Literal ''/docs/oauth2-redirect'', Ep_swagger_ui_redirect),
     (Some [GET, HEAD], Literal ''/redoc'', Ep_redoc_html),
     (Some [GET], Literal ''/api/login'', Ep_login),
     (Some [GET], Literal ''/api/role-docs'', Ep_list_docs_by_role),
     (Some [GET], Literal ''/api/test'', Ep_test),
     (Some [POST], Literal ''/api/chat'', Ep_chat_endpoint),
     (None, Subtree ''/static/'', Ep_static),
     (Some [GET], Literal ''/'', Ep_serve_react_index),
     (Some [GET], Subtree ''/'', Ep_serve_react_router),
     (Some [GET], Literal ''/'', Ep_read_root)]"

definition startup :: "('d, 'm, 'r, 'q) env \<Rightarrow> (raised + route list) \<times> event list" where
  "startup w =
    (if \<not> exists w (STATIC_DIR w)
     then Inl (RuntimeError (''React build not found at: '' @ STATIC_DIR w))
     else Inr routes,
     [Call_exists (STATIC_DIR w)])"

section \<open>The application: dependencies and routing\<close>

text \<open>
  A request as the framework hands it to the application: the method, the path, the
  credentials of the \<^verbatim>\<open>Authorization\<close> header (\<open>None\<close> when the request has none) and
  the body as a \<^verbatim>\<open>ChatRequest\<close>. Headers of the answer, the CORS ones among them, are
  not part of the model.
\<close>

record http_request =
  req_method :: http_method
  path :: string
  credentials :: "HTTPBasicCredentials option"
  body :: ChatRequest

text \<open>
  \<^verbatim>\<open>security = HTTPBasic()\<close>: a request with no credentials is answered 401 by the
  scheme itself, before \<^verbatim>\<open>authenticate\<close> runs.
\<close>

definition security :: "http_request \<Rightarrow> HTTPBasicCredentials outcome" where
  "security req =
    (case credentials req of
       None \<Rightarrow> HTTPException 401 ''Not authenticated''
     | Some c \<Rightarrow> Return c)"

text \<open>
  A handler declared with \<^verbatim>\<open>user=Depends(authenticate)\<close>: the dependencies run first,
  and the handler is called only with the value they return.
\<close>

definition Depends_authenticate ::
  "(user \<Rightarrow> 'd content outcome \<times> event list) \<Rightarrow> http_request \<Rightarrow>
   'd content outcome \<times> event list" where
  "Depends_authenticate handler req =
    (case security req of
       HTTPException s d \<Rightarrow> (HTTPException s d, [])
     | Raise e \<Rightarrow> (Raise e, [])
     | Return c \<Rightarrow>
         (case authenticate c of
            HTTPException s d \<Rightarrow> (HTTPException s d, [])
          | Raise e \<Rightarrow> (Raise e, [])
          | Return u \<Rightarrow> handler u))"

text \<open>
  What the client gets: a status with a body, the answer of the static files mounted on a
  directory for a sub-path, a redirect to another path, or the server's answer to an
  exception nobody handled.
\<close>

datatype 'd response =
    Response nat "'d content"
  | StaticFiles string string
  | RedirectResponse string
  | Unhandled raised

fun respond :: "'d content outcome \<Rightarrow> 'd response" where
  "respond (Return c) = Response 200 c"
| "respond (HTTPException s d) = Response s (JSON [(''detail'', d)])"
| "respond (Raise e) = Unhandled e"

text \<open>
  The framework compiles a route's path to a regular expression between \<^verbatim>\<open>^\<close> and
  \<^verbatim>\<open>$\<close>, with \<^verbatim>\<open>.*\<close> for a \<^verbatim>\<open>path\<close> parameter, and matches it from the start of the
  request path. \<^verbatim>\<open>$\<close> holds at the end of the path and before a line feed that ends
  it; \<^verbatim>\<open>.\<close> is any character but a line feed, so the parameter takes the rest of the
  path up to its first line feed.
\<close>

definition LF :: char where
  "LF = CHR 0x0A"

definition dollar :: "string \<Rightarrow> bool" where
  "dollar rest = (rest = [] \<or> rest = [LF])"

fun path_matches :: "path_pattern \<Rightarrow> string \<Rightarrow> string option" where
  "path_matches (Literal s) p =
    (if startswith p s \<and> dollar (drop (length s) p) then Some [] else None)"
| "path_matches (Subtree s) p =
    (if startswith p s \<and> dollar (dropWhile (\<lambda>c. c \<noteq> LF) (drop (length s) p))
     then Some (takeWhile (\<lambda>c. c \<noteq> LF) (drop (length s) p))
     else None)"

datatype match = NONE | PARTIAL | FULL

fun matches :: "route \<Rightarrow> http_request \<Rightarrow> match" where
  "matches (ms, pat, ep) req =
    (case path_matches pat (path req) of
       None \<Rightarrow> NONE
     | Some _ \<Rightarrow>
         (case ms of
            None \<Rightarrow> FULL
          | Some allowed \<Rightarrow> if req_method req \<in> set allowed then FULL else PARTIAL))"

fun handle ::
  "('d, 'm, 'r, 'q) env \<Rightarrow> route \<Rightarrow> http_request \<Rightarrow> 'd response \<times> event list" where
  "handle w (ms, pat, ep) req =
    (let param = (case path_matches pat (path req) of None \<Rightarrow> [] | Some rest \<Rightarrow> rest);
         answer = (\<lambda>(out, calls). (respond out, calls))
     in case ep of
          Ep_openapi \<Rightarrow> (Response 200 OpenAPI_schema, [])
        | Ep_swagger_ui_html \<Rightarrow> (Response 200 Swagger_UI, [])
        | Ep_swagger_ui_redirect \<Rightarrow> (Response 200 Swagger_UI_redirect, [])
        | Ep_redoc_html \<Rightarrow> (Response 200 ReDoc, [])
        | Ep_login \<Rightarrow> answer (Depends_authenticate login req)
        | Ep_list_docs_by_role \<Rightarrow> answer (Depends_authenticate (list_docs_by_role w) req)
        | Ep_test \<Rightarrow> answer (Depends_authenticate test req)
        | Ep_chat_endpoint \<Rightarrow> answer (Depends_authenticate (chat_endpoint w (body req)) req)
        | Ep_static \<Rightarrow> (StaticFiles (STATIC_DIR w) param, [])
        | Ep_serve_react_index \<Rightarrow> answer (serve_react_index w)
        | Ep_serve_react_router \<Rightarrow> answer (serve_react_router w param)
        | Ep_read_root \<Rightarrow> answer read_root)"

text \<open>
  The router walks the routes in order. The first route that matches path and method
  handles the request; when none does, the first route that matched the path alone answers
  405.
\<close>

fun walk ::
  "('d, 'm, 'r, 'q) env \<Rightarrow> route list \<Rightarrow> route option \<Rightarrow> http_request \<Rightarrow>
   ('d response \<times> event list) option" where
  "walk w [] partial req =
    (case partial of
       Some r \<Rightarrow> Some (Response 405 (JSON [(''detail'', ''Method Not Allowed'')]), [])
     | None \<Rightarrow> None)"
| "walk w (r # rs) partial req =
    (case matches r req of
       FULL \<Rightarrow> Some (handle w r req)
     | PARTIAL \<Rightarrow> walk w rs (if partial = None then Some r else partial) req
     | NONE \<Rightarrow> walk w rs partial req)"

text \<open>
  With no match at all, a path other than the root is tried again with its trailing
  slashes removed, or with a slash added when it has none: when some route matches that
  path, the answer is a redirect to it; otherwise it is 404.
\<close>

definition redirect_slashes :: "route list \<Rightarrow> http_request \<Rightarrow> 'd response" where
  "redirect_slashes rs req =
    (let p = path req;
         p' = (if p \<noteq> [] \<and> last p = CHR ''/''
               then rev (dropWhile (\<lambda>c. c = CHR ''/'') (rev p))
               else p @ ''/'')
     in if p \<noteq> ''/'' \<and> list_ex (\<lambda>r. matches r (req\<lparr>path := p'\<rparr>) \<noteq> NONE) rs
        then RedirectResponse p'
        else Response 404 (JSON [(''detail'', ''Not Found'')]))"

definition router ::
  "('d, 'm, 'r, 'q) env \<Rightarrow> route list \<Rightarrow> http_request \<Rightarrow> 'd response \<times> event list" where
  "router w rs req =
    (case walk w rs None req of
       Some answer \<Rightarrow> answer
     | None \<Rightarrow> (redirect_slashes rs req, []))"

definition app :: "('d, 'm, 'r, 'q) env \<Rightarrow> http_request \<Rightarrow> 'd response \<times> event list" where
  "app w req = router w routes req"

text \<open>
  The process: the module is imported once; when the import raises, the process ends with
  that exception and answers nothing; otherwise the requests are served one after the
  other.
\<close>

fun serve ::
  "('d, 'm, 'r, 'q) env \<Rightarrow> route list \<Rightarrow> http_request list \<Rightarrow>
   'd response list \<times> event list" where
  "serve w rs [] = ([], [])"
| "serve w rs (req # reqs) =
    (let (answer, calls) = router w rs req;
         (answers, calls') = serve w rs reqs
     in (answer # answers, calls @ calls'))"

datatype exit = Aborted raised | Served

definition process ::
  "('d, 'm, 'r, 'q) env \<Rightarrow> http_request list \<Rightarrow> exit \<times> 'd response list \<times> event list" where
  "process w reqs =
    (case startup w of
       (Inl e, calls) \<Rightarrow> (Aborted e, [], calls)
     | (Inr rs, calls) \<Rightarrow>
         (let (answers, calls') = serve w rs reqs
          in (Served, answers, calls @ calls')))"

section \<open>Reading the calls\<close>

text \<open>
  The roles handed to the document loader and to the vector store, and the paths asked of
  \<^verbatim>\<open>os.path.exists\<close>, in the order of the calls.
\<close>

fun scoped_roles :: "event list \<Rightarrow> string list" where
  "scoped_roles [] = []"
| "scoped_roles (Call_get_documents_by_role r # es) = r # scoped_roles es"
| "scoped_roles (Call_load_vector_store r # es) = r # scoped_roles es"
| "scoped_roles (_ # es) = scoped_roles es"

fun exists_calls :: "event list \<Rightarrow> string list" where
  "exists_calls [] = []"
| "exists_calls (Call_exists p # es) = p # exists_calls es"
| "exists_calls (_ # es) = exists_calls es"

section \<open>Example environments and requests\<close>

text \<open>
  An installation where everything works, one whose model fails on every query, and one
  without the frontend build.
\<close>

definition example_env :: "(string list, unit, string, string) env" where
  "example_env =
    \<lparr>get_documents_by_role = (\<lambda>role. Inr [role @ ''/handbook.md'']),
     load_vector_store = (\<lambda>role. Inr (''index of '' @ role)),
     llm = (),
     from_chain_type = (\<lambda>m retriever. Inr retriever),
     run = (\<lambda>qa query. Inr (''from '' @ qa @ '': '' @ query)),
     dirname_file = ''/srv/app'',
     exists = (\<lambda>p. True)\<rparr>"

definition failing_env :: "(string list, unit, string, string) env" where
  "failing_env = example_env\<lparr>run := (\<lambda>qa query. Inl (Exception ''CUDA out of memory''))\<rparr>"

definition unbuilt_env :: "(string list, unit, string, string) env" where
  "unbuilt_env = example_env\<lparr>exists := (\<lambda>p. False)\<rparr>"

definition example_request ::
  "http_method \<Rightarrow> string \<Rightarrow> (string \<times> string) option \<Rightarrow> http_request" where
  "example_request m p auth =
    \<lparr>req_method = m, path = p,
     credentials = map_option (\<lambda>(n, pw). \<lparr>cred_username = n, cred_password = pw\<rparr>) auth,
     body = \<lparr>message = ''hello''\<rparr>\<rparr>"

section \<open>Lemmas\<close>

lemma scoped_roles_append: "scoped_roles (xs @ ys) = scoped_roles xs @ scoped_roles ys"
  by (induction xs rule: scoped_roles.induct) simp_all

lemma exists_calls_append: "exists_calls (xs @ ys) = exists_calls xs @ exists_calls ys"
  by (induction xs rule: exists_calls.induct) simp_all

subsection \<open>The dependency\<close>

lemma Depends_authenticate_stored:
  assumes "credentials req = Some c" "map_of users_db (cred_username c) = Some entry"
    "db_password entry = cred_password c"
  shows "Depends_authenticate handler req =
    handler \<lparr>user_username = cred_username c, user_role = db_role entry\<rparr>"
  using assms by (simp add: Depends_authenticate_def security_def authenticate_def)

lemma Depends_authenticate_rejected:
  assumes "credentials req = None \<or>
      (\<exists>c. credentials req = Some c \<and>
        (map_of users_db (cred_username c) = None \<or>
         (\<exists>entry. map_of users_db (cred_username c) = Some entry \<and>
            db_password entry \<noteq> cred_password c)))"
  shows "Depends_authenticate handler req =
    (HTTPException 401
      (if credentials req = None then ''Not authenticated'' else ''Invalid credentials''), [])"
  using assms by (auto simp: Depends_authenticate_def security_def authenticate_def)

subsection \<open>Which handler a request reaches\<close>

lemma app_login:
  "req_method req = GET \<Longrightarrow> path req = ''/api/login'' \<Longrightarrow>
   app w req = (\<lambda>(out, calls). (respond out, calls)) (Depends_authenticate login req)"
  by (simp add: app_def router_def routes_def startswith_def dollar_def)

lemma app_role_docs:
  "req_method req = GET \<Longrightarrow> path req = ''/api/role-docs'' \<Longrightarrow>
   app w req =
     (\<lambda>(out, calls). (respond out, calls)) (Depends_authenticate (list_docs_by_role w) req)"
  by (simp add: app_def router_def routes_def startswith_def dollar_def)

lemma app_test:
  "req_method req = GET \<Longrightarrow> path req = ''/api/test'' \<Longrightarrow>
   app w req = (\<lambda>(out, calls). (respond out, calls)) (Depends_authenticate test req)"
  by (simp add: app_def router_def routes_def startswith_def dollar_def)

lemma app_chat:
  "req_method req = POST \<Longrightarrow> path req = ''/api/chat'' \<Longrightarrow>
   app w req =
     (\<lambda>(out, calls). (respond out, calls))
       (Depends_authenticate (chat_endpoint w (body req)) req)"
  by (simp add: app_def router_def routes_def startswith_def dollar_def)

text \<open>
  On a path without a line feed, a literal route matches the path equal to it and a
  parameter takes all that follows the prefix.
\<close>

lemma path_matches_Literal_plain:
  assumes "LF \<notin> set p"
  shows "path_matches (Literal s) p = (if p = s then Some [] else None)"
proof (cases "p = s")
  case True
  then show ?thesis by (simp add: startswith_def dollar_def)
next
  case False
  have "\<not> (startswith p s \<and> dollar (drop (length s) p))"
  proof
    assume a: "startswith p s \<and> dollar (drop (length s) p)"
    then have t: "take (length s) p = s" by (simp add: startswith_def)
    from a consider "drop (length s) p = []" | "drop (length s) p = [LF]"
      by (auto simp: dollar_def)
    then show False
    proof cases
      case 1
      with t have "p = s" by (metis append_Nil2 append_take_drop_id)
      with False show False by simp
    next
      case 2
      then have "LF \<in> set (drop (length s) p)" by simp
      then have "LF \<in> set p" by (rule in_set_dropD)
      with assms show False by simp
    qed
  qed
  with False show ?thesis by simp
qed

lemma path_matches_Subtree_plain:
  assumes "LF \<notin> set p"
  shows "path_matches (Subtree s) p =
    (if startswith p s then Some (drop (length s) p) else None)"
proof -
  have "\<forall>c \<in> set (drop (length s) p). c \<noteq> LF"
    using assms by (metis in_set_dropD)
  then have "takeWhile (\<lambda>c. c \<noteq> LF) (drop (length s) p) = drop (length s) p"
    and "dropWhile (\<lambda>c. c \<noteq> LF) (drop (length s) p) = []"
    by simp_all
  then show ?thesis by (simp add: dollar_def)
qed

text \<open>
  A GET on a path without a line feed that is none of the literal routes and lies outside
  the mount ends at \<open>serve_react_index\<close> or at \<open>serve_react_router\<close>; \<open>read_root\<close> is
  never reached.
\<close>

lemma app_fallback:
  assumes "req_method req = GET" "startswith (path req) ''/''" "LF \<notin> set (path req)"
    "path req \<notin> {''/openapi.json'', ''/docs'', ''/docs/oauth2-redirect'', ''/redoc''}"
    "path req \<notin> {''/api/login'', ''/api/role-docs'', ''/api/test''}"
    "\<not> startswith (path req) ''/static/''"
  shows "app w req = (Response 200 (FileResponse (join (BUILD_DIR w) ''index.html'')), [])"
proof -
  note plain = path_matches_Literal_plain [OF assms(3)] path_matches_Subtree_plain [OF assms(3)]
  consider "path req = ''/api/chat''" | "path req = ''/''"
    | "path req \<noteq> ''/api/chat''" "path req \<noteq> ''/''"
    by blast
  then show ?thesis
  proof cases
    case 1
    with assms(1) show ?thesis
      by (simp add: app_def router_def routes_def serve_react_router_def startswith_def
          dollar_def LF_def)
  next
    case 2
    with assms(1) show ?thesis
      by (simp add: app_def router_def routes_def serve_react_index_def startswith_def
          dollar_def LF_def)
  next
    case 3
    with assms(1,2,4,5,6) show ?thesis
      by (simp add: app_def router_def routes_def serve_react_router_def plain
          del: path_matches.simps)
  qed
qed

lemma outside_api_prefix:
  "\<not> startswith p ''/api/'' \<Longrightarrow> p \<notin> {''/api/login'', ''/api/role-docs'', ''/api/test''}"
  by (auto simp: startswith_def)

subsection \<open>The calls a request causes\<close>

lemma chat_endpoint_scoped_roles:
  "scoped_roles (snd (chat_endpoint w request u)) = [user_role u]"
  by (simp add: chat_endpoint_def except_Exception_def Let_def scoped_roles_append
      split: sum.split)

lemma app_scoped_roles:
  assumes "(req_method req, path req) \<in> {(GET, ''/api/role-docs''), (POST, ''/api/chat'')}"
    "credentials req = Some c" "map_of users_db (cred_username c) = Some entry"
    "db_password entry = cred_password c"
  shows "scoped_roles (snd (app w req)) = [db_role entry]"
  using assms
  by (auto simp: app_role_docs app_chat Depends_authenticate_stored split_beta
      chat_endpoint_scoped_roles list_docs_by_role_def)

lemma Depends_authenticate_no_exists:
  assumes "\<And>u. exists_calls (snd (handler u)) = []"
  shows "exists_calls (snd (Depends_authenticate handler req)) = []"
  using assms
  by (simp add: Depends_authenticate_def security_def split: option.split outcome.split)

lemma chat_endpoint_no_exists: "exists_calls (snd (chat_endpoint w request u)) = []"
  by (simp add: chat_endpoint_def except_Exception_def Let_def split: sum.split)

lemma handle_no_exists: "exists_calls (snd (handle w r req)) = []"
proof -
  obtain ms pat ep where r: "r = (ms, pat, ep)" by (cases r)
  show ?thesis
    unfolding r
    by (cases ep)
      (simp_all add: split_beta Depends_authenticate_no_exists chat_endpoint_no_exists
        login_def test_def list_docs_by_role_def serve_react_index_def
        serve_react_router_def read_root_def)
qed

lemma walk_no_exists:
  "walk w rs partial req = Some answer \<Longrightarrow> exists_calls (snd answer) = []"
proof (induction rs arbitrary: partial)
  case Nil
  then show ?case by (auto split: option.splits)
next
  case (Cons r rs)
  show ?case
  proof (cases "matches r req")
    case FULL
    with Cons.prems have "answer = handle w r req" by simp
    then show ?thesis by (simp only: handle_no_exists)
  next
    case PARTIAL
    with Cons.prems Cons.IH show ?thesis by simp
  next
    case NONE
    with Cons.prems Cons.IH show ?thesis by simp
  qed
qed

lemma router_no_exists: "exists_calls (snd (router w rs req)) = []"
  by (simp add: router_def walk_no_exists split: option.split)

lemma serve_no_exists: "exists_calls (snd (serve w rs reqs)) = []"
  by (induction reqs) (simp_all add: split_beta exists_calls_append router_no_exists)

lemma serve_length: "length (fst (serve w rs reqs)) = length reqs"
  by (induction reqs) (simp_all add: split_beta)

section \<open>The claims\<close>

subsection \<open>Authentication\<close>

text \<open>
  C1. When the username is not in the credential table, or it is there with a password
  different from the one presented, \<open>authenticate\<close> raises the HTTP exception with status
  401 and detail "Invalid credentials": the same exception in both cases.
\<close>

theorem authenticate_rejects_unknown_or_mismatch:
  assumes "map_of users_db (cred_username c) = None \<or>
     (\<exists>entry. map_of users_db (cred_username c) = Some entry \<and>
        db_password entry \<noteq> cred_password c)"
  shows "authenticate c = HTTPException 401 ''Invalid credentials''"
  using assms by (auto simp: authenticate_def)

theorem authenticate_rejects_unknown_or_mismatch_witness:
  "map_of users_db ''Mallory'' = None \<and>
   authenticate \<lparr>cred_username = ''Mallory'', cred_password = ''password123''\<rparr> =
     HTTPException 401 ''Invalid credentials'' \<and>
   map_option db_password (map_of users_db ''Tony'') = Some ''password123'' \<and>
   authenticate \<lparr>cred_username = ''Tony'', cred_password = ''Password123''\<rparr> =
     HTTPException 401 ''Invalid credentials''"
proof -
  let ?unknown = "\<lparr>cred_username = ''Mallory'', cred_password = ''password123''\<rparr>"
  let ?mismatch = "\<lparr>cred_username = ''Tony'', cred_password = ''Password123''\<rparr>"
  have absent: "map_of users_db (cred_username ?unknown) = None"
    by (simp add: users_db_def)
  have differs: "\<exists>entry. map_of users_db (cred_username ?mismatch) = Some entry \<and>
      db_password entry \<noteq> cred_password ?mismatch"
    by (simp add: users_db_def)
  have "authenticate ?unknown = HTTPException 401 ''Invalid credentials''"
    by (rule authenticate_rejects_unknown_or_mismatch [OF disjI1 [OF absent]])
  moreover have "authenticate ?mismatch = HTTPException 401 ''Invalid credentials''"
    by (rule authenticate_rejects_unknown_or_mismatch [OF disjI2 [OF differs]])
  ultimately show ?thesis by (simp add: users_db_def)
qed

text \<open>
  C4. When the username is in the credential table with the password presented,
  \<open>authenticate\<close> returns the username together with the role the table records for
  it; for Tony with password123 that is the role engineering.
\<close>

theorem authenticate_returns_stored_role:
  "(map_of users_db (cred_username c) = Some entry \<and> db_password entry = cred_password c \<longrightarrow>
      authenticate c = Return \<lparr>user_username = cred_username c, user_role = db_role entry\<rparr>) \<and>
   authenticate \<lparr>cred_username = ''Tony'', cred_password = ''password123''\<rparr> =
      Return \<lparr>user_username = ''Tony'', user_role = ''engineering''\<rparr>"
  by (simp add: authenticate_def users_db_def)

theorem authenticate_returns_stored_role_witness:
  "map_of users_db ''Sam'' = Some \<lparr>db_password = ''financepass'', db_role = ''finance''\<rparr> \<and>
   authenticate \<lparr>cred_username = ''Sam'', cred_password = ''financepass''\<rparr> =
     Return \<lparr>user_username = ''Sam'', user_role = ''finance''\<rparr>"
proof -
  let ?c = "\<lparr>cred_username = ''Sam'', cred_password = ''financepass''\<rparr>"
  let ?entry = "\<lparr>db_password = ''financepass'', db_role = ''finance''\<rparr>"
  have stored: "map_of users_db (cred_username ?c) = Some ?entry \<and>
      db_password ?entry = cred_password ?c"
    by (simp add: users_db_def)
  from authenticate_returns_stored_role [of ?c ?entry] stored
  show ?thesis by simp
qed

subsection \<open>Protected routes\<close>

text \<open>
  C6. A request to one of the four protected routes (GET /api/login, GET /api/role-docs,
  GET /api/test, POST /api/chat) that carries no credentials, or credentials that
  \<open>authenticate\<close> rejects, is answered 401 and causes no call at all: neither the document
  loader nor the vector store, the chain or the model is reached.
\<close>

theorem rejected_request_reaches_no_handler:
  assumes "(req_method req, path req) \<in>
      {(GET, ''/api/login''), (GET, ''/api/role-docs''), (GET, ''/api/test''),
       (POST, ''/api/chat'')}"
    and "credentials req = None \<or>
      (\<exists>c. credentials req = Some c \<and>
        (map_of users_db (cred_username c) = None \<or>
         (\<exists>entry. map_of users_db (cred_username c) = Some entry \<and>
            db_password entry \<noteq> cred_password c)))"
  shows "app w req =
    (Response 401
       (JSON [(''detail'',
          if credentials req = None then ''Not authenticated'' else ''Invalid credentials'')]),
     [])"
proof -
  note rejected = Depends_authenticate_rejected [OF assms(2)]
  from assms(1) consider
      "req_method req = GET" "path req = ''/api/login''"
    | "req_method req = GET" "path req = ''/api/role-docs''"
    | "req_method req = GET" "path req = ''/api/test''"
    | "req_method req = POST" "path req = ''/api/chat''"
    by auto
  then show ?thesis
  proof cases
    case 1
    then show ?thesis by (simp add: app_login rejected)
  next
    case 2
    then show ?thesis by (simp add: app_role_docs rejected)
  next
    case 3
    then show ?thesis by (simp add: app_test rejected)
  next
    case 4
    then show ?thesis by (simp add: app_chat rejected)
  qed
qed

theorem rejected_request_reaches_no_handler_witness:
  "app example_env (example_request POST ''/api/chat'' None) =
     (Response 401 (JSON [(''detail'', ''Not authenticated'')]), []) \<and>
   app example_env (example_request GET ''/api/role-docs'' (Some (''Sam'', ''wrong''))) =
     (Response 401 (JSON [(''detail'', ''Invalid credentials'')]), [])"
proof -
  let ?missing = "example_request POST ''/api/chat'' None"
  let ?invalid = "example_request GET ''/api/role-docs'' (Some (''Sam'', ''wrong''))"
  have r1: "(req_method ?missing, path ?missing) \<in>
      {(GET, ''/api/login''), (GET, ''/api/role-docs''), (GET, ''/api/test''),
       (POST, ''/api/chat'')}"
    by (simp add: example_request_def)
  have c1: "credentials ?missing = None"
    by (simp add: example_request_def)
  have r2: "(req_method ?invalid, path ?invalid) \<in>
      {(GET, ''/api/login''), (GET, ''/api/role-docs''), (GET, ''/api/test''),
       (POST, ''/api/chat'')}"
    by (simp add: example_request_def)
  have c2: "\<exists>c. credentials ?invalid = Some c \<and>
        (map_of users_db (cred_username c) = None \<or>
         (\<exists>entry. map_of users_db (cred_username c) = Some entry \<and>
            db_password entry \<noteq> cred_password c))"
    by (simp add: example_request_def users_db_def)
  from rejected_request_reaches_no_handler [OF r1 disjI1 [OF c1], of example_env]
    rejected_request_reaches_no_handler [OF r2 disjI2 [OF c2], of example_env]
  show ?thesis by (simp add: example_request_def)
qed

text \<open>
  C3. An authenticated GET /api/role-docs calls the document loader once, with the role the
  credential table records for the caller, and answers with what that call gives: its
  result with status 200 (an exception of the loader is not handled).
\<close>

theorem role_docs_is_loader_result_for_caller_role:
  assumes "req_method req = GET" and "path req = ''/api/role-docs''"
    and "credentials req = Some c"
    and "map_of users_db (cred_username c) = Some entry"
    and "db_password entry = cred_password c"
  shows "app w req =
    ((case get_documents_by_role w (db_role entry) of
        Inl e \<Rightarrow> Unhandled e
      | Inr docs \<Rightarrow> Response 200 (Documents docs)),
     [Call_get_documents_by_role (db_role entry)])"
  using assms
  by (simp add: app_role_docs Depends_authenticate_stored list_docs_by_role_def
      split: sum.split)

theorem role_docs_is_loader_result_for_caller_role_witness:
  "app example_env (example_request GET ''/api/role-docs'' (Some (''Sam'', ''financepass''))) =
     (Response 200 (Documents [''finance/handbook.md'']),
      [Call_get_documents_by_role ''finance''])"
proof -
  let ?req = "example_request GET ''/api/role-docs'' (Some (''Sam'', ''financepass''))"
  let ?c = "\<lparr>cred_username = ''Sam'', cred_password = ''financepass''\<rparr>"
  let ?entry = "\<lparr>db_password = ''financepass'', db_role = ''finance''\<rparr>"
  have h: "req_method ?req = GET" "path ?req = ''/api/role-docs''" "credentials ?req = Some ?c"
      "map_of users_db (cred_username ?c) = Some ?entry" "db_password ?entry = cred_password ?c"
    by (simp_all add: example_request_def users_db_def)
  from role_docs_is_loader_result_for_caller_role [OF h, of example_env]
  show ?thesis by (simp add: example_env_def)
qed

subsection \<open>Chat\<close>

text \<open>
  C5. An authenticated POST /api/chat for which the vector store gives a retriever, the
  chain is built and its run returns a text is answered 200 with exactly the four entries
  user (the caller's username), role (the caller's role), query (the message of the
  request) and response (the text).
\<close>

theorem chat_success_response:
  assumes "req_method req = POST" and "path req = ''/api/chat''"
    and "credentials req = Some c"
    and "map_of users_db (cred_username c) = Some entry"
    and "db_password entry = cred_password c"
    and "load_vector_store w (db_role entry) = Inr retriever"
    and "from_chain_type w (llm w) retriever = Inr qa"
    and "run w qa (message (body req)) = Inr generated_text"
  shows "fst (app w req) =
    Response 200
      (JSON [(''user'', cred_username c), (''role'', db_role entry),
             (''query'', message (body req)), (''response'', generated_text)])"
  using assms
  by (simp add: app_chat Depends_authenticate_stored chat_endpoint_def Let_def)

theorem chat_success_response_witness:
  "fst (app example_env (example_request POST ''/api/chat'' (Some (''Tony'', ''password123'')))) =
     Response 200
       (JSON [(''user'', ''Tony''), (''role'', ''engineering''), (''query'', ''hello''),
              (''response'', ''from index of engineering: hello'')])"
proof -
  let ?req = "example_request POST ''/api/chat'' (Some (''Tony'', ''password123''))"
  let ?c = "\<lparr>cred_username = ''Tony'', cred_password = ''password123''\<rparr>"
  let ?entry = "\<lparr>db_password = ''password123'', db_role = ''engineering''\<rparr>"
  have h: "req_method ?req = POST" "path ?req = ''/api/chat''" "credentials ?req = Some ?c"
      "map_of users_db (cred_username ?c) = Some ?entry" "db_password ?entry = cred_password ?c"
      "load_vector_store example_env (db_role ?entry) = Inr ''index of engineering''"
      "from_chain_type example_env (llm example_env) ''index of engineering'' =
         Inr ''index of engineering''"
      "run example_env ''index of engineering'' (message (body ?req)) =
         Inr ''from index of engineering: hello''"
    by (simp_all add: example_request_def users_db_def example_env_def)
  from chat_success_response [OF h]
  show ?thesis by (simp add: example_request_def)
qed



text \<open>
  C9. For an authenticated POST /api/chat or GET /api/role-docs, the only role handed to
  the vector store or to the document loader is the one the credential table records for
  the username. Two such requests with the same credentials are scoped to the same role,
  whatever their routes, their bodies and the behaviour of the collaborators.
\<close>

theorem scoping_role_is_table_role:
  assumes "(req_method req, path req) \<in> {(GET, ''/api/role-docs''), (POST, ''/api/chat'')}"
    and "(req_method req', path req') \<in> {(GET, ''/api/role-docs''), (POST, ''/api/chat'')}"
    and "credentials req = Some c" and "credentials req' = Some c"
    and "map_of users_db (cred_username c) = Some entry"
    and "db_password entry = cred_password c"
  shows "scoped_roles (snd (app w req)) = [db_role entry] \<and>
         scoped_roles (snd (app w' req')) = [db_role entry]"
  by (simp add: app_scoped_roles [OF assms(1,3,5,6)] app_scoped_roles [OF assms(2,4,5,6)])

theorem scoping_role_is_table_role_witness:
  "scoped_roles (snd (app failing_env
      (example_request POST ''/api/chat'' (Some (''Natasha'', ''hrpass123''))))) = [''hr''] \<and>
   scoped_roles (snd (app example_env
      (example_request GET ''/api/role-docs'' (Some (''Natasha'', ''hrpass123''))))) = [''hr'']"
proof -
  let ?req = "example_request POST ''/api/chat'' (Some (''Natasha'', ''hrpass123''))"
  let ?req' = "example_request GET ''/api/role-docs'' (Some (''Natasha'', ''hrpass123''))"
  let ?c = "\<lparr>cred_username = ''Natasha'', cred_password = ''hrpass123''\<rparr>"
  let ?entry = "\<lparr>db_password = ''hrpass123'', db_role = ''hr''\<rparr>"
  have h: "(req_method ?req, path ?req) \<in> {(GET, ''/api/role-docs''), (POST, ''/api/chat'')}"
      "(req_method ?req', path ?req') \<in> {(GET, ''/api/role-docs''), (POST, ''/api/chat'')}"
      "credentials ?req = Some ?c" "credentials ?req' = Some ?c"
      "map_of users_db (cred_username ?c) = Some ?entry" "db_password ?entry = cred_password ?c"
    by (simp_all add: example_request_def users_db_def)
  from scoping_role_is_table_role [OF h, of failing_env example_env]
  show ?thesis by simp
qed

subsection \<open>The frontend\<close>

text \<open>
  C7, as the specification words it, fails: a GET on /docs lies neither under /api/ nor
  under /static/, yet it is answered with the Swagger UI page that \<^verbatim>\<open>FastAPI()\<close>
  registers, not with the answer of GET /; and a GET on a path with a line feed inside, such
  as /a, line feed, b, matches no route and is answered 404.
\<close>

theorem frontend_entry_fails_on_docs_route:
  "\<not> startswith ''/docs'' ''/api/'' \<and> \<not> startswith ''/docs'' ''/static/'' \<and>
   fst (app example_env (example_request GET ''/docs'' None)) = Response 200 Swagger_UI \<and>
   fst (app example_env (example_request GET ''/'' None)) =
     Response 200 (FileResponse ''/srv/app/../frontend/build/index.html'') \<and>
   fst (app example_env (example_request GET ''/docs'' None)) \<noteq>
     fst (app example_env (example_request GET ''/'' None)) \<and>
   fst (app example_env (example_request GET (''/a'' @ [LF] @ ''b'') None)) =
     Response 404 (JSON [(''detail'', ''Not Found'')])"
  by (simp add: app_def router_def routes_def redirect_slashes_def example_request_def
      example_env_def startswith_def dollar_def LF_def serve_react_index_def BUILD_DIR_def
      join_def)

text \<open>
  C7, amended. A GET on a path that begins with a slash, has no line feed, is none of the
  four routes the framework registers itself (/openapi.json, /docs, /docs/oauth2-redirect,
  /redoc) and lies neither under /api/ nor under /static/ is answered with the file
  index.html of the build directory; so any two such requests, GET / and
  GET /any/unknown/path among them, get the same answer.
\<close>

theorem frontend_entry_for_other_paths:
  assumes "req_method req = GET" and "startswith (path req) ''/''"
    and "LF \<notin> set (path req)"
    and "path req \<notin> {''/openapi.json'', ''/docs'', ''/docs/oauth2-redirect'', ''/redoc''}"
    and "\<not> startswith (path req) ''/api/''" and "\<not> startswith (path req) ''/static/''"
    and "req_method req' = GET" and "startswith (path req') ''/''"
    and "LF \<notin> set (path req')"
    and "path req' \<notin> {''/openapi.json'', ''/docs'', ''/docs/oauth2-redirect'', ''/redoc''}"
    and "\<not> startswith (path req') ''/api/''" and "\<not> startswith (path req') ''/static/''"
  shows "fst (app w req) = Response 200 (FileResponse (join (BUILD_DIR w) ''index.html'')) \<and>
         fst (app w req') = fst (app w req)"
proof -
  have "app w req = (Response 200 (FileResponse (join (BUILD_DIR w) ''index.html'')), [])"
    using assms(1-6) by (intro app_fallback outside_api_prefix)
  moreover
  have "app w req' = (Response 200 (FileResponse (join (BUILD_DIR w) ''index.html'')), [])"
    using assms(7-12) by (intro app_fallback outside_api_prefix)
  ultimately show ?thesis by simp
qed

theorem frontend_entry_for_other_paths_witness:
  "fst (app example_env (example_request GET ''/'' None)) =
     Response 200 (FileResponse ''/srv/app/../frontend/build/index.html'') \<and>
   fst (app example_env (example_request GET ''/any/unknown/path'' None)) =
     fst (app example_env (example_request GET ''/'' None))"
proof -
  let ?req = "example_request GET ''/'' None"
  let ?req' = "example_request GET ''/any/unknown/path'' None"
  have h: "req_method ?req = GET" "startswith (path ?req) ''/''"
      "LF \<notin> set (path ?req)"
      "path ?req \<notin> {''/openapi.json'', ''/docs'', ''/docs/oauth2-redirect'', ''/redoc''}"
      "\<not> startswith (path ?req) ''/api/''" "\<not> startswith (path ?req) ''/static/''"
      "req_method ?req' = GET" "startswith (path ?req') ''/''"
      "LF \<notin> set (path ?req')"
      "path ?req' \<notin> {''/openapi.json'', ''/docs'', ''/docs/oauth2-redirect'', ''/redoc''}"
      "\<not> startswith (path ?req') ''/api/''" "\<not> startswith (path ?req') ''/static/''"
    by (simp_all add: example_request_def startswith_def LF_def)
  have index: "join (BUILD_DIR example_env) ''index.html'' =
      ''/srv/app/../frontend/build/index.html''"
    by (simp add: BUILD_DIR_def join_def startswith_def example_env_def)
  from frontend_entry_for_other_paths [OF h, of example_env]
  show ?thesis by (simp add: index)
qed

text \<open>
  C10, as the specification words it, fails: /redoc is none of the routes the module
  defines, yet a GET on it is answered with the ReDoc page that \<^verbatim>\<open>FastAPI()\<close>
  registers, not by the catch-all; and a GET on the unknown path /api/x, line feed, y
  matches no route, the catch-all included, and is answered 404.
\<close>

theorem unmatched_get_fails_on_redoc_route:
  "''/redoc'' \<notin> {''/api/login'', ''/api/role-docs'', ''/api/test'', ''/api/chat'', ''/''} \<and>
   \<not> startswith ''/redoc'' ''/static/'' \<and>
   app example_env (example_request GET ''/redoc'' None) = (Response 200 ReDoc, []) \<and>
   app example_env (example_request GET (''/api/x'' @ [LF] @ ''y'') None) =
     (Response 404 (JSON [(''detail'', ''Not Found'')]), [])"
  by (simp add: app_def router_def routes_def redirect_slashes_def example_request_def
      startswith_def dollar_def LF_def)

text \<open>
  C10, amended. A GET on a path that begins with a slash, has no line feed, is none of the
  four routes the framework registers itself (/openapi.json, /docs, /docs/oauth2-redirect,
  /redoc), none of /api/login, /api/role-docs and /api/test, and does not lie under
  /static/ is answered 200 with the file index.html of the build directory, whatever
  credentials it carries and without any call: this holds for the unknown paths under
  /api/ too, such as /api/nonexistent.
\<close>

theorem unmatched_get_serves_frontend_entry:
  assumes "req_method req = GET" and "startswith (path req) ''/''"
    and "LF \<notin> set (path req)"
    and "path req \<notin> {''/openapi.json'', ''/docs'', ''/docs/oauth2-redirect'', ''/redoc''}"
    and "path req \<notin> {''/api/login'', ''/api/role-docs'', ''/api/test''}"
    and "\<not> startswith (path req) ''/static/''"
  shows "app w req = (Response 200 (FileResponse (join (BUILD_DIR w) ''index.html'')), [])"
  using assms by (rule app_fallback)

theorem unmatched_get_serves_frontend_entry_witness:
  "app example_env (example_request GET ''/api/nonexistent'' None) =
     (Response 200 (FileResponse ''/srv/app/../frontend/build/index.html''), [])"
proof -
  let ?req = "example_request GET ''/api/nonexistent'' None"
  have h: "req_method ?req = GET" "startswith (path ?req) ''/''"
      "LF \<notin> set (path ?req)"
      "path ?req \<notin> {''/openapi.json'', ''/docs'', ''/docs/oauth2-redirect'', ''/redoc''}"
      "path ?req \<notin> {''/api/login'', ''/api/role-docs'', ''/api/test''}"
      "\<not> startswith (path ?req) ''/static/''"
    by (simp_all add: example_request_def startswith_def LF_def)
  have index: "join (BUILD_DIR example_env) ''index.html'' =
      ''/srv/app/../frontend/build/index.html''"
    by (simp add: BUILD_DIR_def join_def startswith_def example_env_def)
  from unmatched_get_serves_frontend_entry [OF h, of example_env]
  show ?thesis by (simp add: index)
qed

subsection \<open>Start-up\<close>

text \<open>
  C8. When the static directory of the frontend build does not exist, the process ends in
  the RuntimeError of the start-up check and answers none of the requests, whatever they
  are. So it does when the build directory itself is missing, on a file system where the
  static directory exists only inside an existing build directory. In every run the
  existence of the static directory is asked exactly once, at start-up.
\<close>

theorem missing_build_aborts_before_serving:
  "(\<not> exists w (STATIC_DIR w) \<longrightarrow>
      process w reqs =
        (Aborted (RuntimeError (''React build not found at: '' @ STATIC_DIR w)), [],
         [Call_exists (STATIC_DIR w)])) \<and>
   (\<not> exists w (BUILD_DIR w) \<and> (exists w (STATIC_DIR w) \<longrightarrow> exists w (BUILD_DIR w)) \<longrightarrow>
      process w reqs =
        (Aborted (RuntimeError (''React build not found at: '' @ STATIC_DIR w)), [],
         [Call_exists (STATIC_DIR w)])) \<and>
   exists_calls (snd (snd (process w reqs))) = [STATIC_DIR w]"
proof -
  have aborts: "process w reqs =
      (Aborted (RuntimeError (''React build not found at: '' @ STATIC_DIR w)), [],
       [Call_exists (STATIC_DIR w)])"
    if "\<not> exists w (STATIC_DIR w)"
    using that by (simp add: process_def startup_def)
  have once: "exists_calls (snd (snd (process w reqs))) = [STATIC_DIR w]"
    by (simp add: process_def startup_def split_beta exists_calls_append serve_no_exists)
  from aborts once show ?thesis by blast
qed

theorem missing_build_aborts_before_serving_witness:
  "\<not> exists unbuilt_env (STATIC_DIR unbuilt_env) \<and>
   \<not> exists unbuilt_env (BUILD_DIR unbuilt_env) \<and>
   process unbuilt_env
     [example_request GET ''/'' None,
      example_request GET ''/api/login'' (Some (''Tony'', ''password123''))] =
     (Aborted (RuntimeError ''React build not found at: /srv/app/../frontend/build/static''),
      [], [Call_exists ''/srv/app/../frontend/build/static''])"
proof -
  let ?reqs = "[example_request GET ''/'' None,
      example_request GET ''/api/login'' (Some (''Tony'', ''password123''))]"
  have missing: "\<not> exists unbuilt_env (STATIC_DIR unbuilt_env)"
      "\<not> exists unbuilt_env (BUILD_DIR unbuilt_env)"
    by (simp_all add: unbuilt_env_def)
  have static: "STATIC_DIR unbuilt_env = ''/srv/app/../frontend/build/static''"
    by (simp add: STATIC_DIR_def BUILD_DIR_def join_def startswith_def unbuilt_env_def
        example_env_def)
  from missing_build_aborts_before_serving [of unbuilt_env ?reqs] missing
  show ?thesis by (simp add: static)
qed

end
